theory Spec2Isabelle
  imports Complex_Main "HOL-Library.Multiset"
begin

section \<open>Data model of the collage canvas (components/GridCanvas.tsx)\<close>

text \<open>
  Percent coordinates are JavaScript numbers in the source; they are modelled as exact
  rationals, so every statement below is about the arithmetic the code writes down,
  without the rounding of IEEE doubles. Integers that the code obtains from
  \<open>Math.floor\<close>, \<open>Math.ceil\<close> and \<open>Math.round\<close> are \<open>int\<close>.

  The interface \<open>NFT\<close> (hooks/useWalletCollections.ts) has optional string fields, here
  with the prefix \<open>nft_\<close>; a missing field is \<open>None\<close>. JavaScript treats a missing field and the empty string as
  false in a condition, which is \<open>truthy\<close>.
\<close>

record NFT =
  nft_id :: "string option"
  nft_contract :: "string option"
  nft_identifier :: "string option"
  nft_contract_address :: "string option"
  nft_token_id :: "string option"
  nft_image_url :: "string option"
  nft_is_collection_image :: bool

definition truthy :: "string option \<Rightarrow> bool" where
  "truthy v = (case v of None \<Rightarrow> False | Some s \<Rightarrow> s \<noteq> [])"

definition str :: "string option \<Rightarrow> string" where
  "str v = (case v of None \<Rightarrow> ''undefined'' | Some s \<Rightarrow> s)"

text \<open>
  The interface \<open>CanvasItem\<close>. The fields \<open>id, nft, x, y, size\<close> of the source are
  \<open>iid, inft, ix, iy, isize\<close> here (the source's names are constants or common variable
  names of HOL).
\<close>

record CanvasItem =
  iid :: string
  inft :: NFT
  ix :: rat
  iy :: rat
  isize :: rat
  zIndex :: int
  cropX :: rat
  cropY :: rat
  cropWidth :: rat
  cropHeight :: rat

datatype ResizeDirection = N | S | E | W | NE | NW | SE | SW

fun dirName :: "ResizeDirection \<Rightarrow> string" where
  "dirName N = ''n''"
| "dirName S = ''s''"
| "dirName E = ''e''"
| "dirName W = ''w''"
| "dirName NE = ''ne''"
| "dirName NW = ''nw''"
| "dirName SE = ''se''"
| "dirName SW = ''sw''"

text \<open>\<open>resizeDirection.includes('e')\<close> for a one-character argument.\<close>

definition dirIncludes :: "ResizeDirection \<Rightarrow> char \<Rightarrow> bool" where
  "dirIncludes d ch = (ch \<in> set (dirName d))"

text \<open>
  The \<open>useState\<close> cells of the component. \<open>clearSignals\<close> counts the calls of the
  parent's \<open>onClearSelection\<close> callback.
\<close>

record canvas =
  items :: "CanvasItem list"
  gridColumns :: nat
  activeItem :: "string option"
  snapToGrid :: bool
  history :: "CanvasItem list list"
  historyIndex :: int
  cropMode :: bool
  isDragging :: bool
  isResizing :: bool
  resizeDirection :: "ResizeDirection option"
  interactionStart :: "rat \<times> rat"
  initialItemState :: "CanvasItem option"
  clearSignals :: nat

text \<open>The state of the first render: the \<open>useState\<close> initial values.\<close>

definition initial :: canvas where
  "initial = \<lparr> items = [], gridColumns = 12, activeItem = None, snapToGrid = True,
     history = [], historyIndex = - 1, cropMode = False, isDragging = False,
     isResizing = False, resizeDirection = None, interactionStart = (0, 0),
     initialItemState = None, clearSignals = 0 \<rparr>"

text \<open>The options of the column selector.\<close>

definition columnOptions :: "nat list" where
  "columnOptions = [4, 6, 8, 10, 12, 16, 24]"

section \<open>Handlers as state transformers\<close>

text \<open>
  A handler of a React function component reads the state cells of the render that created
  it (its closure) and queues updates; React applies the queued updates of one cell in the
  order of the calls, a value replacing the cell and an updater function mapping the value
  queued before it. Cells are independent, so a handler is modelled as a function of the
  closure \<open>c\<close> to a transformer of the pending state \<open>s\<close>: \<open>setItems(v)\<close> is
  \<open>s\<lparr>items := v\<rparr>\<close> with \<open>v\<close> computed from \<open>c\<close>, and \<open>setItems(prev => f(prev))\<close>
  is \<open>s\<lparr>items := f (items s)\<rparr>\<close>. A handler attached in the render that shows the current
  state runs with \<open>c = s\<close>, which is \<open>run\<close>.
\<close>

definition run :: "(canvas \<Rightarrow> canvas \<Rightarrow> 'a) \<Rightarrow> canvas \<Rightarrow> 'a" where
  "run h s = h s s"

text \<open>\<open>xs.slice(0, e)\<close>: a negative end counts from the end of the array.\<close>

definition slice0 :: "'a list \<Rightarrow> int \<Rightarrow> 'a list" where
  "slice0 xs e = (if e < 0 then take (nat (int (length xs) + e)) xs else take (nat e) xs)"

definition saveToHistory :: "canvas \<Rightarrow> CanvasItem list \<Rightarrow> canvas \<Rightarrow> canvas" where
  "saveToHistory c newItems s =
     (let s1 = (if historyIndex c < int (length (history c)) - 1
                then s\<lparr>history := slice0 (history c) (historyIndex c + 1)\<rparr> else s);
          s2 = s1\<lparr>history := history s1 @ [newItems]\<rparr>
      in s2\<lparr>historyIndex := historyIndex s2 + 1\<rparr>)"

text \<open>
  \<open>history[i]\<close> outside the array is \<open>undefined\<close> in JavaScript, and \<open>setItems(undefined)\<close>
  leaves a component that fails at its next render; \<open>undo\<close> and \<open>redo\<close> return that as
  an error.
\<close>

datatype error = UndefinedItems

definition undo :: "canvas \<Rightarrow> canvas \<Rightarrow> error + canvas" where
  "undo c s =
     (if historyIndex c > 0 then
        (if historyIndex c - 1 < int (length (history c))
         then Inr (s\<lparr>historyIndex := historyIndex s - 1,
                     items := history c ! nat (historyIndex c - 1)\<rparr>)
         else Inl UndefinedItems)
      else Inr s)"

definition redo :: "canvas \<Rightarrow> canvas \<Rightarrow> error + canvas" where
  "redo c s =
     (if historyIndex c < int (length (history c)) - 1 then
        (if 0 \<le> historyIndex c + 1
         then Inr (s\<lparr>historyIndex := historyIndex s + 1,
                     items := history c ! nat (historyIndex c + 1)\<rparr>)
         else Inl UndefinedItems)
      else Inr s)"

definition cellSize :: "canvas \<Rightarrow> rat" where
  "cellSize c = 100 / of_nat (gridColumns c)"

section \<open>Layout engine: the empty slot of a single item\<close>

text \<open>
  The cells an item occupies for \<open>findEmptyPosition\<close>: the columns from
  \<open>floor(x / cellSize)\<close> to \<open>floor((x + size) / cellSize)\<close> and the rows likewise, both
  ends included. The source keeps the keys \<open>`${col},${row}`\<close> in a \<open>Set\<close>; the model keeps
  the pairs \<open>(col, row)\<close> in a list and asks for membership.
\<close>

definition occupiedBy :: "rat \<Rightarrow> CanvasItem \<Rightarrow> (int \<times> int) list" where
  "occupiedBy cs item =
     (let startCol = \<lfloor>ix item / cs\<rfloor>;
          startRow = \<lfloor>iy item / cs\<rfloor>;
          endCol = \<lfloor>(ix item + isize item) / cs\<rfloor>;
          endRow = \<lfloor>(iy item + isize item) / cs\<rfloor>
      in concat (map (\<lambda>row. map (\<lambda>col. (col, row)) [startCol..endCol]) [startRow..endRow]))"

definition occupiedCells :: "rat \<Rightarrow> CanvasItem list \<Rightarrow> (int \<times> int) list" where
  "occupiedCells cs its = concat (map (occupiedBy cs) its)"

text \<open>The test of one candidate area: no cell of the block of \<open>k\<close> by \<open>k\<close> cells is occupied.\<close>

definition areaEmpty :: "(int \<times> int) list \<Rightarrow> int \<Rightarrow> int \<Rightarrow> int \<Rightarrow> bool" where
  "areaEmpty occ k row col =
     list_all (\<lambda>r. list_all (\<lambda>c. (col + c, row + r) \<notin> set occ) [0..k - 1]) [0..k - 1]"

text \<open>
  \<open>findEmptyPosition\<close>: the two nested loops leave at the first empty area in row-major
  order, which is \<open>find\<close> on the candidates in that order. \<open>rx\<close> and \<open>ry\<close> are the two
  results of \<open>Math.random()\<close> that the fallback draws. The result is \<open>(x, y, size)\<close>.
\<close>

definition findEmptyPosition :: "canvas \<Rightarrow> rat \<Rightarrow> rat \<Rightarrow> rat \<times> rat \<times> rat" where
  "findEmptyPosition c rx ry =
     (let cs = cellSize c;
          occ = occupiedCells cs (items c);
          defaultSize = cs * 2;
          k = \<lceil>defaultSize / cs\<rceil>;
          maxRow = \<lfloor>100 / cs\<rfloor> - k + 1;
          maxCol = \<lfloor>100 / cs\<rfloor> - k + 1;
          candidates = concat (map (\<lambda>row. map (\<lambda>col. (row, col)) [0..maxCol - 1]) [0..maxRow - 1])
      in case find (\<lambda>(row, col). areaEmpty occ k row col) candidates of
           Some (row, col) \<Rightarrow> (of_int col * cs, of_int row * cs, defaultSize)
         | None \<Rightarrow> (rx * (100 - defaultSize), ry * (100 - defaultSize), defaultSize))"

text \<open>
  \<open>addNFT\<close>; \<open>uid\<close> is the result of \<open>generateUniqueId()\<close>, which the source builds from
  the clock and a random number.
\<close>

definition addNFT :: "NFT \<Rightarrow> string \<Rightarrow> rat \<Rightarrow> rat \<Rightarrow> canvas \<Rightarrow> canvas \<Rightarrow> canvas" where
  "addNFT n uid rx ry c s =
     (case findEmptyPosition c rx ry of (px, py, psize) \<Rightarrow>
        let newItem = \<lparr> iid = uid, inft = n, ix = px, iy = py, isize = psize,
                        zIndex = int (length (items c)) + 1,
                        cropX = 0, cropY = 0, cropWidth = 100, cropHeight = 100 \<rparr>;
            newItems = items c @ [newItem]
        in saveToHistory c newItems (s\<lparr>items := newItems, activeItem := Some uid\<rparr>))"

definition removeItem :: "string \<Rightarrow> canvas \<Rightarrow> canvas \<Rightarrow> canvas" where
  "removeItem i c s =
     (let newItems = filter (\<lambda>item. iid item \<noteq> i) (items c);
          s1 = s\<lparr>items := newItems\<rparr>;
          s2 = (if activeItem c = Some i then s1\<lparr>activeItem := None\<rparr> else s1)
      in saveToHistory c newItems s2)"

definition clearCanvas :: "canvas \<Rightarrow> canvas \<Rightarrow> canvas" where
  "clearCanvas c s =
     (let s1 = saveToHistory c [] (s\<lparr>items := [], activeItem := None\<rparr>)
      in s1\<lparr>clearSignals := clearSignals s1 + 1\<rparr>)"

text \<open>\<open>Array.prototype.findIndex\<close>, with \<open>None\<close> for \<open>-1\<close>.\<close>

fun findIndex :: "('a \<Rightarrow> bool) \<Rightarrow> 'a list \<Rightarrow> nat option" where
  "findIndex P [] = None"
| "findIndex P (v # vs) = (if P v then Some 0 else map_option Suc (findIndex P vs))"

definition selectItem :: "string \<Rightarrow> canvas \<Rightarrow> canvas" where
  "selectItem i s =
     (let prev = items s;
          maxZ = fold max (map zIndex prev) 0
      in s\<lparr>activeItem := Some i,
           items := (case findIndex (\<lambda>item. iid item = i) prev of
                       Some itemIndex \<Rightarrow> prev[itemIndex := (prev ! itemIndex)\<lparr>zIndex := maxZ + 1\<rparr>]
                     | None \<Rightarrow> prev)\<rparr>)"

section \<open>Interaction controller\<close>

text \<open>\<open>Math.round\<close> rounds a half towards plus infinity.\<close>

definition jsRound :: "rat \<Rightarrow> int" where
  "jsRound v = \<lfloor>v + 1 / 2\<rfloor>"

definition snapToGridValue :: "canvas \<Rightarrow> rat \<Rightarrow> rat" where
  "snapToGridValue c v =
     (if \<not> snapToGrid c then v else of_int (jsRound (v / cellSize c)) * cellSize c)"

text \<open>
  Pointer positions are taken in percent of the canvas, as the handlers compute them from
  the event and the bounding rectangle.
\<close>

definition handleMouseDown :: "rat \<times> rat \<Rightarrow> string \<Rightarrow> canvas \<Rightarrow> canvas \<Rightarrow> canvas" where
  "handleMouseDown p i c s =
     (let s1 = (selectItem i s)\<lparr>isDragging := True, isResizing := False, interactionStart := p\<rparr>
      in case find (\<lambda>item. iid item = i) (items c) of
           Some item \<Rightarrow> s1\<lparr>initialItemState := Some item\<rparr>
         | None \<Rightarrow> s1)"

definition handleResizeStart ::
  "rat \<times> rat \<Rightarrow> string \<Rightarrow> ResizeDirection \<Rightarrow> canvas \<Rightarrow> canvas \<Rightarrow> canvas" where
  "handleResizeStart p i d c s =
     (let s1 = (selectItem i s)\<lparr>isDragging := False, isResizing := True,
                 resizeDirection := Some d, interactionStart := p\<rparr>
      in case find (\<lambda>item. iid item = i) (items c) of
           Some item \<Rightarrow> s1\<lparr>initialItemState := Some item\<rparr>
         | None \<Rightarrow> s1)"

text \<open>The item a drag frame computes from the item \<open>item\<close> of the pending list.\<close>

definition dragItem :: "canvas \<Rightarrow> CanvasItem \<Rightarrow> rat \<Rightarrow> rat \<Rightarrow> CanvasItem \<Rightarrow> CanvasItem" where
  "dragItem c init deltaX deltaY item =
     (let newX = ix init + deltaX;
          newY = iy init + deltaY;
          newX = (if snapToGrid c then snapToGridValue c newX else newX);
          newY = (if snapToGrid c then snapToGridValue c newY else newY);
          newX = max 0 (min (100 - isize item) newX);
          newY = max 0 (min (100 - isize item) newY)
      in item\<lparr>ix := newX, iy := newY\<rparr>)"

text \<open>The chain of comparisons that chooses the delta of a resize frame.\<close>

fun effectiveDelta :: "ResizeDirection \<Rightarrow> rat \<Rightarrow> rat \<Rightarrow> rat" where
  "effectiveDelta E deltaX deltaY = deltaX"
| "effectiveDelta W deltaX deltaY = - deltaX"
| "effectiveDelta S deltaX deltaY = deltaY"
| "effectiveDelta N deltaX deltaY = - deltaY"
| "effectiveDelta NE deltaX deltaY = max deltaX (- deltaY)"
| "effectiveDelta NW deltaX deltaY = max (- deltaX) (- deltaY)"
| "effectiveDelta SE deltaX deltaY = max deltaX deltaY"
| "effectiveDelta SW deltaX deltaY = max (- deltaX) deltaY"

text \<open>The item a resize frame computes.\<close>

definition resizeItem ::
  "canvas \<Rightarrow> CanvasItem \<Rightarrow> ResizeDirection \<Rightarrow> rat \<Rightarrow> rat \<Rightarrow> CanvasItem \<Rightarrow> CanvasItem" where
  "resizeItem c init d deltaX deltaY item =
     (let eff = effectiveDelta d deltaX deltaY;
          grown = isize init + eff;
          (newX, newY, newSize) =
            (if dirIncludes d CHR ''e'' then (ix init, iy init, grown)
             else if dirIncludes d CHR ''w'' then (ix init + isize init - grown, iy init, grown)
             else if dirIncludes d CHR ''s'' then (ix init, iy init, grown)
             else if dirIncludes d CHR ''n'' then (ix init, iy init + isize init - grown, grown)
             else (ix init, iy init, isize init));
          newSize = max (cellSize c) newSize;
          newX = (if snapToGrid c then snapToGridValue c newX else newX);
          newY = (if snapToGrid c then snapToGridValue c newY else newY);
          newSize = (if snapToGrid c then snapToGridValue c newSize else newSize);
          newX = max 0 newX;
          newY = max 0 newY;
          newSize = min (100 - newX) (min (100 - newY) newSize)
      in item\<lparr>ix := newX, iy := newY, isize := newSize\<rparr>)"

text \<open>
  \<open>handleMouseMove\<close> with the pointer at \<open>(currentX, currentY)\<close>. The listener is the
  closure of the render in which the gesture began, so \<open>c\<close> is that render's state.
\<close>

definition handleMouseMove :: "rat \<times> rat \<Rightarrow> canvas \<Rightarrow> canvas \<Rightarrow> canvas" where
  "handleMouseMove p c s =
     (if (\<not> isDragging c \<and> \<not> isResizing c) \<or> \<not> truthy (activeItem c) then s
      else case initialItemState c of
        None \<Rightarrow> s
      | Some init \<Rightarrow>
         let deltaX = fst p - fst (interactionStart c);
             deltaY = snd p - snd (interactionStart c)
         in if isDragging c then
              s\<lparr>items := map (\<lambda>item. if Some (iid item) = activeItem c
                                       then dragItem c init deltaX deltaY item else item) (items s)\<rparr>
            else (case (isResizing c, resizeDirection c) of
                    (True, Some d) \<Rightarrow>
                      s\<lparr>items := map (\<lambda>item. if Some (iid item) = activeItem c
                                         then resizeItem c init d deltaX deltaY item else item) (items s)\<rparr>
                  | _ \<Rightarrow> s))"

definition handleMouseUp :: "canvas \<Rightarrow> canvas \<Rightarrow> canvas" where
  "handleMouseUp c s =
     (let s1 = (if isDragging c \<or> isResizing c then saveToHistory c (items c) s else s)
      in s1\<lparr>isDragging := False, isResizing := False, resizeDirection := None,
            initialItemState := None\<rparr>)"

definition updateCrop :: "rat \<Rightarrow> rat \<Rightarrow> rat \<Rightarrow> rat \<Rightarrow> canvas \<Rightarrow> canvas \<Rightarrow> canvas" where
  "updateCrop cx cy cw ch c s =
     (if \<not> truthy (activeItem c) then s
      else saveToHistory c (items c)
        (s\<lparr>items := map (\<lambda>item. if Some (iid item) = activeItem c
                   then item\<lparr>cropX := max 0 (min 100 cx),
                              cropY := max 0 (min 100 cy),
                              cropWidth := max 10 (min (100 - cx) cw),
                              cropHeight := max 10 (min (100 - cy) ch)\<rparr>
                   else item) (items s)\<rparr>))"

definition moveActiveItem :: "rat \<Rightarrow> rat \<Rightarrow> canvas \<Rightarrow> canvas \<Rightarrow> canvas" where
  "moveActiveItem dx dy c s =
     (if \<not> truthy (activeItem c) then s
      else saveToHistory c (items c)
        (s\<lparr>items := map (\<lambda>item. if Some (iid item) = activeItem c
                   then (let newX = max 0 (min (100 - isize item) (ix item + dx));
                             newY = max 0 (min (100 - isize item) (iy item + dy))
                         in item\<lparr>ix := (if snapToGrid c then snapToGridValue c newX else newX),
                                  iy := (if snapToGrid c then snapToGridValue c newY else newY)\<rparr>)
                   else item) (items s)\<rparr>))"

definition resizeActiveItem :: "rat \<Rightarrow> canvas \<Rightarrow> canvas \<Rightarrow> canvas" where
  "resizeActiveItem delta c s =
     (if \<not> truthy (activeItem c) then s
      else saveToHistory c (items c)
        (s\<lparr>items := map (\<lambda>item. if Some (iid item) = activeItem c
                   then (let newSize = max (cellSize c)
                                 (min (100 - ix item) (min (100 - iy item) (isize item + delta)))
                         in item\<lparr>isize := (if snapToGrid c then snapToGridValue c newSize
                                             else newSize)\<rparr>)
                   else item) (items s)\<rparr>))"

section \<open>Layout engine: bulk placement\<close>

text \<open>A cell \<open>{ row, col }\<close> of \<open>availableCells\<close> is the pair \<open>(row, col)\<close>.\<close>

type_synonym cell = "nat \<times> nat"

definition allCells :: "nat \<Rightarrow> cell list" where
  "allCells gridSize = concat (map (\<lambda>row. map (\<lambda>col. (row, col)) [0..<gridSize]) [0..<gridSize])"

text \<open>The cells of the block of \<open>k\<close> by \<open>k\<close> cells at \<open>cell\<close>, in the order of the two loops.\<close>

definition blockCells :: "cell \<Rightarrow> nat \<Rightarrow> cell list" where
  "blockCells cell k =
     concat (map (\<lambda>r. map (\<lambda>c. (fst cell + r, snd cell + c)) [0..<k]) [0..<k])"

definition canFit :: "nat \<Rightarrow> cell list \<Rightarrow> nat \<Rightarrow> cell \<Rightarrow> bool" where
  "canFit gridSize availableCells k cell =
     list_all (\<lambda>(targetRow, targetCol).
                 \<not> (targetRow \<ge> gridSize \<or> targetCol \<ge> gridSize) \<and>
                 (targetRow, targetCol) \<in> set availableCells)
              (blockCells cell k)"

text \<open>
  \<open>findIndex\<close> followed by \<open>splice(targetIndex, 1)\<close> removes the first equal cell, if
  there is one: \<open>remove1\<close>.
\<close>

definition markOccupied :: "cell \<Rightarrow> nat \<Rightarrow> cell list \<Rightarrow> cell list" where
  "markOccupied cell k availableCells = fold remove1 (blockCells cell k) availableCells"

text \<open>
  The loop of \<open>tryPlaceNFT\<close> over the size multipliers, from \<open>maxSize\<close> down to 1: the
  first cell of \<open>availableCells\<close> at which the block fits, with the multiplier.
\<close>

fun findPlace :: "nat \<Rightarrow> cell list \<Rightarrow> nat \<Rightarrow> (cell \<times> nat) option" where
  "findPlace gridSize availableCells 0 = None"
| "findPlace gridSize availableCells (Suc k) =
     (case find (canFit gridSize availableCells (Suc k)) availableCells of
        Some cell \<Rightarrow> Some (cell, Suc k)
      | None \<Rightarrow> findPlace gridSize availableCells k)"

definition newTile :: "string \<Rightarrow> NFT \<Rightarrow> rat \<Rightarrow> rat \<Rightarrow> rat \<Rightarrow> int \<Rightarrow> CanvasItem" where
  "newTile uid n px py psize z =
     \<lparr> iid = uid, inft = n, ix = px, iy = py, isize = psize, zIndex = z,
       cropX = 0, cropY = 0, cropWidth = 100, cropHeight = 100 \<rparr>"

text \<open>
  \<open>tryPlaceNFT\<close> on the two arrays it mutates, \<open>availableCells\<close> and \<open>newItems\<close>.
  \<open>ids k\<close> is the result of the call of \<open>generateUniqueId()\<close> for the item pushed
  at position \<open>k\<close> of \<open>newItems\<close>.
\<close>

definition tryPlaceNFT ::
  "rat \<Rightarrow> nat \<Rightarrow> (nat \<Rightarrow> string) \<Rightarrow> NFT \<Rightarrow> nat \<Rightarrow> nat \<Rightarrow> cell list \<times> CanvasItem list
     \<Rightarrow> bool \<times> cell list \<times> CanvasItem list" where
  "tryPlaceNFT cs gridSize ids n index maxSize st =
     (case st of (availableCells, newItems) \<Rightarrow>
        (case findPlace gridSize availableCells maxSize of
           None \<Rightarrow> (False, availableCells, newItems)
         | Some (cell, sizeMultiplier) \<Rightarrow>
             (True, markOccupied cell sizeMultiplier availableCells,
              newItems @ [newTile (ids (length newItems)) n
                            (of_nat (snd cell) * cs) (of_nat (fst cell) * cs)
                            (cs * of_nat sizeMultiplier) (int index + 1)])))"

text \<open>Step 1: \<open>shuffledNFTs.forEach\<close>, with the index of each element.\<close>

definition placeAll ::
  "rat \<Rightarrow> nat \<Rightarrow> (nat \<Rightarrow> string) \<Rightarrow> NFT list \<Rightarrow> cell list \<times> CanvasItem list
     \<Rightarrow> cell list \<times> CanvasItem list" where
  "placeAll cs gridSize ids shuffledNFTs st =
     fold (\<lambda>(n, index) st.
             let maxSize = (if nft_is_collection_image n then 3 else 3)
             in snd (tryPlaceNFT cs gridSize ids n index maxSize st))
          (zip shuffledNFTs [0..<length shuffledNFTs]) st"

text \<open>
  Step 2: the \<open>while\<close> loop that takes the first available cell for a tile of one cell,
  as long as fewer than \<open>minCount\<close> items are placed.
\<close>

fun fillLoop ::
  "rat \<Rightarrow> (nat \<Rightarrow> string) \<Rightarrow> NFT list \<Rightarrow> int \<Rightarrow> nat \<Rightarrow> cell list \<Rightarrow> CanvasItem list
     \<Rightarrow> CanvasItem list" where
  "fillLoop cs ids shuffledNFTs minCount fillerIndex [] newItems = newItems"
| "fillLoop cs ids shuffledNFTs minCount fillerIndex (cell # rest) newItems =
     (if int (length newItems) < minCount then
        fillLoop cs ids shuffledNFTs minCount (fillerIndex + 1) rest
          (newItems @ [newTile (ids (length newItems))
                         (shuffledNFTs ! (fillerIndex mod length shuffledNFTs))
                         (of_nat (snd cell) * cs) (of_nat (fst cell) * cs) cs
                         (int (length newItems) + 1)])
      else newItems)"

text \<open>
  The items that \<open>addMultipleNFTs\<close> builds. \<open>shuffledNFTs\<close> is the array that the sort
  with a random comparison leaves: some rearrangement of \<open>nftsToAdd\<close>.
\<close>

definition packMultiple ::
  "rat \<Rightarrow> (nat \<Rightarrow> string) \<Rightarrow> NFT list \<Rightarrow> int \<Rightarrow> CanvasItem list" where
  "packMultiple cs ids shuffledNFTs minCount =
     (let gridSize = nat \<lfloor>100 / cs\<rfloor>;
          (availableCells, newItems) = placeAll cs gridSize ids shuffledNFTs (allCells gridSize, [])
      in if int (length newItems) < minCount
         then fillLoop cs ids shuffledNFTs minCount 0 availableCells newItems
         else newItems)"

definition addMultipleNFTs ::
  "NFT list \<Rightarrow> int \<Rightarrow> NFT list \<Rightarrow> (nat \<Rightarrow> string) \<Rightarrow> canvas \<Rightarrow> canvas \<Rightarrow> canvas" where
  "addMultipleNFTs nftsToAdd minCount shuffledNFTs ids c s =
     (if nftsToAdd = [] then s
      else let s1 = s\<lparr>items := [], activeItem := None\<rparr>;
               newItems = packMultiple (cellSize c) ids shuffledNFTs minCount
           in saveToHistory c newItems (s1\<lparr>items := newItems\<rparr>))"

section \<open>Reconciliation with the selection of the parent\<close>

text \<open>The identifier that the effect on \<open>selectedNFTs\<close> computes for an asset.\<close>

definition nftKey :: "NFT \<Rightarrow> string" where
  "nftKey n =
     (if truthy (nft_contract n) \<and> truthy (nft_identifier n)
        then str (nft_contract n) @ ''-'' @ str (nft_identifier n)
      else if truthy (nft_contract_address n) \<and> truthy (nft_token_id n)
        then str (nft_contract_address n) @ ''-'' @ str (nft_token_id n)
      else if truthy (nft_image_url n) then str (nft_image_url n) else ''unknown'')"

definition existingNFTs :: "CanvasItem list \<Rightarrow> string set" where
  "existingNFTs its = set (map (\<lambda>item. nftKey (inft item)) its)"

definition newNFTs :: "canvas \<Rightarrow> NFT list \<Rightarrow> NFT list" where
  "newNFTs c selectedNFTs = filter (\<lambda>n. nftKey n \<notin> existingNFTs (items c)) selectedNFTs"

text \<open>
  The effect: one call of \<open>addNFT\<close> for each new asset, all of them closures of the same
  render. \<open>ids k\<close>, \<open>rxs k\<close> and \<open>rys k\<close> are the identifier and the random numbers drawn
  in the call for the asset at position \<open>k\<close> of \<open>newNFTs\<close>.
\<close>

definition reconcile ::
  "NFT list \<Rightarrow> (nat \<Rightarrow> string) \<Rightarrow> (nat \<Rightarrow> rat) \<Rightarrow> (nat \<Rightarrow> rat) \<Rightarrow> canvas \<Rightarrow> canvas \<Rightarrow> canvas" where
  "reconcile selectedNFTs ids rxs rys c s =
     (if selectedNFTs = [] then s
      else let new = newNFTs c selectedNFTs
           in fold (\<lambda>(n, k). addNFT n (ids k) (rxs k) (rys k) c) (zip new [0..<length new]) s)"

section \<open>Committed mutations\<close>

text \<open>
  The handlers that end in \<open>saveToHistory\<close>, with the arguments of each; \<open>GestureEnd\<close>
  is \<open>handleMouseUp\<close>, the end of a drag or of a resize.
\<close>

datatype mutation =
    Add NFT string rat rat
  | Remove string
  | Clear
  | BulkAdd "NFT list" int "NFT list" "nat \<Rightarrow> string"
  | MoveNudge rat rat
  | ResizeNudge rat
  | CropApply rat rat rat rat
  | GestureEnd

fun mutate :: "mutation \<Rightarrow> canvas \<Rightarrow> canvas \<Rightarrow> canvas" where
  "mutate (Add n uid rx ry) = addNFT n uid rx ry"
| "mutate (Remove i) = removeItem i"
| "mutate Clear = clearCanvas"
| "mutate (BulkAdd nftsToAdd minCount shuffledNFTs ids) =
     addMultipleNFTs nftsToAdd minCount shuffledNFTs ids"
| "mutate (MoveNudge dx dy) = moveActiveItem dx dy"
| "mutate (ResizeNudge delta) = resizeActiveItem delta"
| "mutate (CropApply cx cy cw ch) = updateCrop cx cy cw ch"
| "mutate GestureEnd = handleMouseUp"

text \<open>Whether the handler, run as a closure of \<open>c\<close>, reaches its call of \<open>saveToHistory\<close>.\<close>

fun commits :: "mutation \<Rightarrow> canvas \<Rightarrow> bool" where
  "commits (Add n uid rx ry) c = True"
| "commits (Remove i) c = True"
| "commits Clear c = True"
| "commits (BulkAdd nftsToAdd minCount shuffledNFTs ids) c = (nftsToAdd \<noteq> [])"
| "commits (MoveNudge dx dy) c = truthy (activeItem c)"
| "commits (ResizeNudge delta) c = truthy (activeItem c)"
| "commits (CropApply cx cy cw ch) c = truthy (activeItem c)"
| "commits GestureEnd c = (isDragging c \<or> isResizing c)"

text \<open>
  The handlers that pass to \<open>saveToHistory\<close> the list they have just handed to
  \<open>setItems\<close>. The nudges, \<open>updateCrop\<close> and \<open>handleMouseUp\<close> pass \<open>[...items]\<close>, the
  list of their closure.
\<close>

fun savesNewItems :: "mutation \<Rightarrow> bool" where
  "savesNewItems (Add n uid rx ry) = True"
| "savesNewItems (Remove i) = True"
| "savesNewItems Clear = True"
| "savesNewItems (BulkAdd nftsToAdd minCount shuffledNFTs ids) = (nftsToAdd \<noteq> [])"
| "savesNewItems m = False"

text \<open>An asset and an item for the concrete runs below.\<close>

definition exampleNFT :: NFT where
  "exampleNFT = \<lparr> nft_id = Some ''1'', nft_contract = None, nft_identifier = None,
     nft_contract_address = Some ''0xabc'', nft_token_id = Some ''7'',
     nft_image_url = Some ''https://img/7.png'', nft_is_collection_image = False \<rparr>"

definition exampleItem :: CanvasItem where
  "exampleItem = newTile ''nft-1'' exampleNFT 0 0 (50 / 3) 1"

text \<open>The canvas after the first asset was added, and the same canvas after a clear and an undo.\<close>

definition exampleCanvas :: canvas where
  "exampleCanvas = initial\<lparr>items := [exampleItem], activeItem := Some ''nft-1'',
     history := [[exampleItem]], historyIndex := 0\<rparr>"

definition undoneCanvas :: canvas where
  "undoneCanvas = exampleCanvas\<lparr>activeItem := None, history := [[exampleItem], []],
     clearSignals := 1\<rparr>"

text \<open>
  The canvas after the item of \<open>exampleCanvas\<close> was dragged to the right edge: the
  pointer goes down on the item at \<open>(0, 0)\<close>, moves to \<open>(100, 0)\<close> and is released. The
  listeners of the move and of the release are closures of the render after the press.
\<close>

definition draggedCanvas :: canvas where
  "draggedCanvas = (let down = run (handleMouseDown (0, 0) ''nft-1'') exampleCanvas
     in handleMouseUp down (handleMouseMove (100, 0) down down))"

section \<open>Notions of the properties\<close>

text \<open>The bounds of an item at rest.\<close>

definition inBounds :: "CanvasItem \<Rightarrow> bool" where
  "inBounds item = (0 \<le> ix item \<and> 0 \<le> iy item
     \<and> ix item + isize item \<le> 100 \<and> iy item + isize item \<le> 100)"

text \<open>
  The deltas of the two axes as a handle counts them: a handle on the west side grows the
  item when the pointer moves left, one on the north side when it moves up.
\<close>

definition adjustedX :: "ResizeDirection \<Rightarrow> rat \<Rightarrow> rat" where
  "adjustedX d deltaX = (if dirIncludes d CHR ''w'' then - deltaX else deltaX)"

definition adjustedY :: "ResizeDirection \<Rightarrow> rat \<Rightarrow> rat" where
  "adjustedY d deltaY = (if dirIncludes d CHR ''n'' then - deltaY else deltaY)"

text \<open>
  The choice that the specification words as "the larger-magnitude of the two axis
  deltas"; it is compared with \<open>effectiveDelta\<close> below and is not part of the program.
\<close>

definition specLargerMagnitude :: "rat \<Rightarrow> rat \<Rightarrow> rat" where
  "specLargerMagnitude a b = (if \<bar>a\<bar> \<ge> \<bar>b\<bar> then a else b)"

text \<open>
  The grid cells that a square covers: the cells whose interior meets the interior of the
  square with corner \<open>(px, py)\<close> and side \<open>psize\<close>. The footprint of an item is the list
  of the cells its square covers.
\<close>

definition cellsCovered :: "rat \<Rightarrow> nat \<Rightarrow> rat \<Rightarrow> rat \<Rightarrow> rat \<Rightarrow> cell list" where
  "cellsCovered cs gridSize px py psize =
     filter (\<lambda>(row, col). of_nat col * cs < px + psize \<and> px < (of_nat col + 1) * cs
                         \<and> of_nat row * cs < py + psize \<and> py < (of_nat row + 1) * cs)
            (allCells gridSize)"

definition footprint :: "rat \<Rightarrow> nat \<Rightarrow> CanvasItem \<Rightarrow> cell list" where
  "footprint cs gridSize item = cellsCovered cs gridSize (ix item) (iy item) (isize item)"

text \<open>Every item of the list has an identifier that \<open>generateUniqueId\<close> returned.\<close>

definition idsFrom :: "(nat \<Rightarrow> string) \<Rightarrow> CanvasItem list \<Rightarrow> bool" where
  "idsFrom ids its = (\<forall>item \<in> set its. iid item \<in> range ids)"

text \<open>
  The identity key as the specification words it: the pair of contract and token id where
  the asset has one, else the opaque id, else the image URL. It is compared with \<open>nftKey\<close>
  below and is not part of the program.
\<close>

datatype identityKey = ContractToken string string | OpaqueId string | ImageUrl "string option"

definition specIdentityKey :: "NFT \<Rightarrow> identityKey" where
  "specIdentityKey n =
     (if truthy (nft_contract n) \<and> truthy (nft_identifier n)
        then ContractToken (str (nft_contract n)) (str (nft_identifier n))
      else if truthy (nft_contract_address n) \<and> truthy (nft_token_id n)
        then ContractToken (str (nft_contract_address n)) (str (nft_token_id n))
      else if truthy (nft_id n) then OpaqueId (str (nft_id n))
      else ImageUrl (nft_image_url n))"

text \<open>Two assets with the same opaque id, no contract and different image URLs.\<close>

definition assetA :: NFT where
  "assetA = \<lparr> nft_id = Some ''a1'', nft_contract = None, nft_identifier = None,
     nft_contract_address = None, nft_token_id = None,
     nft_image_url = Some ''https://img/a.png'', nft_is_collection_image = False \<rparr>"

definition assetB :: NFT where
  "assetB = assetA\<lparr>nft_image_url := Some ''https://img/a-large.png''\<rparr>"

section \<open>The parent component (App.tsx)\<close>

text \<open>
  \<open>App\<close> keeps the list \<open>selectedNFTs\<close> (the field \<open>appSelectedNFTs\<close>) and renders the
  canvas with it. \<open>isAlreadySelected\<close> is the test of \<open>handleSelectNFT\<close>: by contract
  address and token id where both assets have them, else by \<open>id\<close> where both have one,
  else by image URL.
\<close>

record app =
  appSelectedNFTs :: "NFT list"
  gridCanvas :: canvas

definition initialApp :: app where
  "initialApp = \<lparr> appSelectedNFTs = [], gridCanvas = initial \<rparr>"

definition isAlreadySelected :: "NFT list \<Rightarrow> NFT \<Rightarrow> bool" where
  "isAlreadySelected selected n =
     list_ex (\<lambda>selectedNFT.
        if truthy (nft_contract_address selectedNFT) \<and> truthy (nft_contract_address n)
           \<and> truthy (nft_token_id selectedNFT) \<and> truthy (nft_token_id n)
        then nft_contract_address selectedNFT = nft_contract_address n
             \<and> nft_token_id selectedNFT = nft_token_id n
        else if truthy (nft_id selectedNFT) \<and> truthy (nft_id n)
        then nft_id selectedNFT = nft_id n
        else nft_image_url selectedNFT = nft_image_url n) selected"

text \<open>
  \<open>handleSelectNFT\<close> appends the asset unless it is already selected; the canvas is
  rendered with the new list and its effect on \<open>selectedNFTs\<close> runs.
\<close>

definition handleSelectNFT ::
  "NFT \<Rightarrow> (nat \<Rightarrow> string) \<Rightarrow> (nat \<Rightarrow> rat) \<Rightarrow> (nat \<Rightarrow> rat) \<Rightarrow> app \<Rightarrow> app" where
  "handleSelectNFT n ids rxs rys a =
     (if isAlreadySelected (appSelectedNFTs a) n then a
      else let selected = appSelectedNFTs a @ [n]
           in a\<lparr>appSelectedNFTs := selected,
                gridCanvas := run (reconcile selected ids rxs rys) (gridCanvas a)\<rparr>)"

text \<open>
  The clear button: \<open>clearCanvas\<close>, whose callback \<open>onClearSelection\<close> is
  \<open>handleClearSelectedNFTs\<close>; the effect of the canvas returns at once on the empty list.
  The undo button runs \<open>undo\<close> on the canvas and leaves the list of the parent as it is.
\<close>

definition clearButton :: "app \<Rightarrow> app" where
  "clearButton a = a\<lparr>gridCanvas := run clearCanvas (gridCanvas a), appSelectedNFTs := []\<rparr>"

definition undoButton :: "app \<Rightarrow> error + app" where
  "undoButton a = (case run undo (gridCanvas a) of
       Inl e \<Rightarrow> Inl e | Inr s \<Rightarrow> Inr (a\<lparr>gridCanvas := s\<rparr>))"

text \<open>The application after \<open>assetA\<close> was selected, the canvas cleared and the clear undone.\<close>

definition restoredApp :: app where
  "restoredApp = \<lparr> appSelectedNFTs = [],
     gridCanvas = initial\<lparr>items := [newTile ''nft-1'' assetA 0 0 (50 / 3) 1],
       history := [[newTile ''nft-1'' assetA 0 0 (50 / 3) 1], []], historyIndex := 0,
       clearSignals := 1\<rparr> \<rparr>"

section \<open>History\<close>

lemma saveToHistory_history:
  "- 1 \<le> historyIndex c \<Longrightarrow> history c = history s \<Longrightarrow> historyIndex c = historyIndex s \<Longrightarrow>
   history (saveToHistory c newItems s) = take (nat (historyIndex s + 1)) (history s) @ [newItems]"
  by (auto simp: saveToHistory_def Let_def slice0_def)

lemma saveToHistory_index:
  "historyIndex (saveToHistory c newItems s) = historyIndex s + 1"
  by (simp add: saveToHistory_def Let_def)

lemma saveToHistory_items:
  "items (saveToHistory c newItems s) = items s"
  by (simp add: saveToHistory_def Let_def)

lemma saveToHistory_activeItem:
  "activeItem (saveToHistory c newItems s) = activeItem s"
  by (simp add: saveToHistory_def Let_def)

text \<open>
  Every committing handler keeps the entries up to the current index and appends one
  snapshot: the new list for the handlers of \<open>savesNewItems\<close>, the list of the closure for
  the others.
\<close>

lemma mutate_history:
  assumes "commits m c" "history c = history s" "historyIndex c = historyIndex s"
    and "- 1 \<le> historyIndex s"
  shows "history (mutate m c s) = take (nat (historyIndex s + 1)) (history s) @
            [if savesNewItems m then items (mutate m c s) else items c]
      \<and> historyIndex (mutate m c s) = historyIndex s + 1"
  using assms
  by (cases m)
     (auto simp: saveToHistory_history saveToHistory_index saveToHistory_items addNFT_def
        removeItem_def clearCanvas_def addMultipleNFTs_def moveActiveItem_def
        resizeActiveItem_def updateCrop_def handleMouseUp_def Let_def split: prod.splits)

lemma areaEmpty_Nil: "areaEmpty [] k row col"
  by (simp add: areaEmpty_def list_all_iff)

lemma candidates_head:
  assumes "0 \<le> m"
  shows "concat (map (\<lambda>row. map (\<lambda>col. (row, col)) [0..m]) [0..m])
     = (0, 0) # map (\<lambda>col. (0, col)) [1..m]
         @ concat (map (\<lambda>row. map (\<lambda>col. (row, col)) [0..m]) [1..m])"
proof -
  have u: "[0..m] = 0 # [1..m]" using assms by (simp add: upto_rec1)
  have "concat (map (\<lambda>row. map (\<lambda>col. (row, col)) [0..m]) [0..m])
      = concat (map (\<lambda>row. map (\<lambda>col. (row, col)) [0..m]) (0 # [1..m]))"
    using u by simp
  also have "\<dots> = map (\<lambda>col. (0, col)) [0..m]
      @ concat (map (\<lambda>row. map (\<lambda>col. (row, col)) [0..m]) [1..m])"
    by simp
  also have "map (\<lambda>col. (0::int, col)) [0..m] = (0, 0) # map (\<lambda>col. (0, col)) [1..m]"
    using u by simp
  finally show ?thesis by simp
qed

lemma findEmptyPosition_no_items:
  assumes "2 \<le> gridColumns c" "items c = []"
  shows "findEmptyPosition c rx ry = (0, 0, 2 * cellSize c)"
proof -
  let ?n = "gridColumns c"
  let ?cs = "cellSize c"
  have pos: "0 < ?cs" using assms(1) by (simp add: cellSize_def)
  have k: "\<lceil>?cs * 2 / ?cs\<rceil> = 2" using pos by simp
  have "100 / ?cs = of_nat ?n" using assms(1) by (simp add: cellSize_def)
  then have g: "\<lfloor>100 / ?cs\<rfloor> = int ?n" by simp
  have m: "0 \<le> int ?n - 2 + 1 - 1" using assms(1) by simp
  have occ: "occupiedCells ?cs (items c) = []"
    using assms(2) by (simp add: occupiedCells_def)
  show ?thesis
    unfolding findEmptyPosition_def Let_def k g occ
    by (subst candidates_head[OF m]) (simp add: areaEmpty_Nil)
qed

lemma exampleCanvas_reached:
  "run (addNFT exampleNFT ''nft-1'' rx ry) initial = exampleCanvas"
proof -
  have "findEmptyPosition initial rx ry = (0, 0, 2 * cellSize initial)"
    by (rule findEmptyPosition_no_items) (simp_all add: initial_def)
  then show ?thesis
    by (simp add: run_def addNFT_def cellSize_def saveToHistory_def initial_def
        exampleCanvas_def exampleItem_def newTile_def Let_def)
qed

lemma undoneCanvas_reached:
  "run undo (run clearCanvas exampleCanvas) = Inr undoneCanvas"
  by (simp add: run_def undo_def clearCanvas_def saveToHistory_def initial_def
      exampleCanvas_def undoneCanvas_def Let_def)

text \<open>
  C7: in a state with entries after the current index, as undo leaves it, a committing
  handler keeps the entries up to the current index, drops every later one and appends one
  snapshot, so that the index is the last one again; redo, run next, changes nothing.
  The closure \<open>c\<close> of the handler has the history of the current state (for
  \<open>handleMouseUp\<close> it is the render of the start of the gesture, whose item list may be
  older).
\<close>

theorem commit_truncates_redo:
  assumes "commits m c" "history c = history s" "historyIndex c = historyIndex s"
    and "0 \<le> historyIndex s" "historyIndex s < int (length (history s)) - 1"
  shows "history (mutate m c s) = take (nat (historyIndex s) + 1) (history s) @
            [if savesNewItems m then items (mutate m c s) else items c]
     \<and> length (history (mutate m c s)) = nat (historyIndex s) + 2
     \<and> historyIndex (mutate m c s) = historyIndex s + 1
     \<and> run redo (mutate m c s) = Inr (mutate m c s)"
proof -
  have n: "nat (historyIndex s + 1) = nat (historyIndex s) + 1"
    using assms(4) by simp
  have h: "history (mutate m c s) = take (nat (historyIndex s) + 1) (history s) @
            [if savesNewItems m then items (mutate m c s) else items c]"
    and i: "historyIndex (mutate m c s) = historyIndex s + 1"
    using mutate_history[OF assms(1-3)] assms(4) n by auto
  have l: "length (take (nat (historyIndex s) + 1) (history s) @ [v]) = nat (historyIndex s) + 2"
    for v using assms(4,5) by (simp add: min_def)
  have len: "length (history (mutate m c s)) = nat (historyIndex s) + 2"
    by (subst h) (rule l)
  have "run redo (mutate m c s) = Inr (mutate m c s)"
    using len i assms(4) by (simp add: run_def redo_def)
  with h len i show ?thesis by blast
qed

theorem commit_truncates_redo_witness:
  "commits Clear undoneCanvas \<and> 0 \<le> historyIndex undoneCanvas
   \<and> historyIndex undoneCanvas < int (length (history undoneCanvas)) - 1
   \<and> history (mutate Clear undoneCanvas undoneCanvas) = [[exampleItem], []]
   \<and> historyIndex (mutate Clear undoneCanvas undoneCanvas) = 1
   \<and> run redo (mutate Clear undoneCanvas undoneCanvas) = Inr (mutate Clear undoneCanvas undoneCanvas)"
  using commit_truncates_redo [of Clear undoneCanvas undoneCanvas]
  by (simp add: undoneCanvas_def exampleCanvas_def initial_def clearCanvas_def
      saveToHistory_def slice0_def Let_def)

text \<open>
  One call of a handler that stores the list it has just set (\<open>addNFT\<close>, \<open>removeItem\<close>,
  \<open>clearCanvas\<close>, \<open>addMultipleNFTs\<close>), run as a closure of the current render in a state
  whose history holds the current item list at the current index: undo after it restores
  the list from before it, and redo after that undo restores the list it produced.
\<close>

lemma undo_redo_roundtrip:
  assumes "savesNewItems m"
    and "0 \<le> historyIndex s" "historyIndex s < int (length (history s))"
    and "history s ! nat (historyIndex s) = items s"
  shows "\<exists>s1 s2. run undo (run (mutate m) s) = Inr s1 \<and> items s1 = items s
           \<and> run redo s1 = Inr s2 \<and> items s2 = items (run (mutate m) s)"
proof -
  let ?s' = "mutate m s s"
  have cm: "commits m s" using assms(1) by (cases m) auto
  have h: "history ?s' = take (nat (historyIndex s + 1)) (history s) @ [items ?s']"
    and i: "historyIndex ?s' = historyIndex s + 1"
    using mutate_history[OF cm refl refl] assms(1,2) by auto
  have l: "length (take (nat (historyIndex s + 1)) (history s)) = nat (historyIndex s) + 1"
    using assms(2,3) by simp
  have n: "nat (historyIndex s + 1) = nat (historyIndex s) + 1" using assms(2) by simp
  let ?s1 = "?s'\<lparr>historyIndex := historyIndex ?s' - 1,
                  items := history ?s' ! nat (historyIndex ?s' - 1)\<rparr>"
  have u: "run undo ?s' = Inr ?s1"
    using assms(2,3) h i l by (simp add: run_def undo_def)
  have "history ?s' ! nat (historyIndex s) = history s ! nat (historyIndex s)"
    using h l n by (simp add: nth_append)
  then have i1: "items ?s1 = items s" using assms(4) i by simp
  let ?s2 = "?s1\<lparr>historyIndex := historyIndex ?s1 + 1,
                  items := history ?s1 ! nat (historyIndex ?s1 + 1)\<rparr>"
  have r: "run redo ?s1 = Inr ?s2"
    using assms(2,3) h i l by (simp add: run_def redo_def)
  have "history ?s' ! (nat (historyIndex s) + 1) = items ?s'"
    using l n by (subst h) (simp add: nth_append)
  then have i2: "items ?s2 = items ?s'" using i n by simp
  show ?thesis unfolding run_def using u i1 r i2 unfolding run_def by blast
qed

lemma undo_redo_roundtrip_example:
  "savesNewItems Clear \<and> 0 \<le> historyIndex exampleCanvas
   \<and> historyIndex exampleCanvas < int (length (history exampleCanvas))
   \<and> history exampleCanvas ! nat (historyIndex exampleCanvas) = items exampleCanvas
   \<and> (\<exists>s1 s2. run undo (run (mutate Clear) exampleCanvas) = Inr s1 \<and> items s1 = [exampleItem]
           \<and> run redo s1 = Inr s2 \<and> items s2 = [])"
  using undo_redo_roundtrip [of Clear exampleCanvas]
  by (simp add: exampleCanvas_def initial_def run_def clearCanvas_def saveToHistory_def Let_def)

section \<open>The empty slot on an empty canvas\<close>

lemma columnOptions_at_least_2: "n \<in> set columnOptions \<Longrightarrow> 2 \<le> n"
  by (auto simp: columnOptions_def)

text \<open>
  C8: on an empty item list \<open>findEmptyPosition\<close> returns \<open>x = 0\<close>, \<open>y = 0\<close> and the size
  of two cells, \<open>cellSize = 100 / columns\<close>, for every column count from 2 on; the
  selector of the component offers 4, 6, 8, 10, 12, 16 and 24 (\<open>columnOptions\<close>). The two
  random numbers of the fallback have no influence.
\<close>

theorem findEmptyPosition_empty_canvas:
  assumes "2 \<le> gridColumns c" "items c = []"
  shows "findEmptyPosition c rx ry = (0, 0, 2 * (100 / of_nat (gridColumns c)))"
  using findEmptyPosition_no_items[OF assms] by (simp add: cellSize_def)

theorem findEmptyPosition_empty_canvas_witness:
  "2 \<le> gridColumns initial \<and> items initial = []
   \<and> findEmptyPosition initial (1 / 2) (1 / 3) = (0, 0, 50 / 3)"
  using findEmptyPosition_empty_canvas [of initial "1 / 2" "1 / 3"]
  by (simp add: initial_def)

section \<open>Resize frames\<close>

lemma floor_rat_numeral_div:
  "\<lfloor>(numeral a :: rat) / numeral b\<rfloor> = numeral a div numeral b"
  using floor_divide_of_int_eq[of "numeral a" "numeral b", where ?'a = rat] by simp

lemma floor_rat_neg_numeral_div:
  "\<lfloor>- (numeral a :: rat) / numeral b\<rfloor> = - numeral a div numeral b"
  using floor_divide_of_int_eq[of "- numeral a" "numeral b", where ?'a = rat] by simp

lemma floor_rat_one_div:
  "\<lfloor>1 / (numeral b :: rat)\<rfloor> = 1 div numeral b"
  using floor_divide_of_int_eq[of 1 "numeral b", where ?'a = rat] by simp

lemma snap_if: "(if snapToGrid c then snapToGridValue c v else v) = snapToGridValue c v"
  by (simp add: snapToGridValue_def)

lemma resizeItem_size:
  "isize (resizeItem c init d deltaX deltaY item) =
     min (100 - ix (resizeItem c init d deltaX deltaY item))
       (min (100 - iy (resizeItem c init d deltaX deltaY item))
         (snapToGridValue c (max (cellSize c) (isize init + effectiveDelta d deltaX deltaY))))"
  by (cases d) (simp_all add: resizeItem_def Let_def dirIncludes_def snap_if)

lemma effectiveDelta_corner:
  assumes "d \<in> {NE, NW, SE, SW}"
  shows "effectiveDelta d deltaX deltaY = max (adjustedX d deltaX) (adjustedY d deltaY)"
  using assms by (cases d) (simp_all add: adjustedX_def adjustedY_def dirIncludes_def)

lemma example_resize:
  "resizeItem exampleCanvas exampleItem SE (- 10) 1 exampleItem = exampleItem"
  by (simp add: dirIncludes_def exampleCanvas_def exampleItem_def newTile_def initial_def
      cellSize_def snapToGridValue_def jsRound_def resizeItem_def Let_def
      floor_rat_numeral_div)

text \<open>
  C6, as stated, fails: the corner handles take \<open>Math.max\<close> of the two adjusted deltas,
  the larger value and not the larger magnitude. On the handle \<open>se\<close> with the pointer
  moved 10 to the left and 1 down, the code resizes by 1 and the larger magnitude is -10.
\<close>

theorem corner_delta_not_larger_magnitude_counterexample:
  "effectiveDelta SE (- 10) 1 = 1
   \<and> specLargerMagnitude (adjustedX SE (- 10)) (adjustedY SE 1) = - 10"
  by (simp add: specLargerMagnitude_def adjustedX_def adjustedY_def dirIncludes_def)

text \<open>
  C6, amended: for every corner handle and every pair of pointer deltas, the effective
  resize delta is the maximum (the larger signed value) of the two direction-adjusted axis
  deltas, and the size of the frame is the initial size plus that delta, raised to one
  cell, snapped when snapping is on and cut at the two far edges of the canvas.
\<close>

theorem corner_delta_is_maximum:
  assumes "d \<in> {NE, NW, SE, SW}"
  shows "effectiveDelta d deltaX deltaY = max (adjustedX d deltaX) (adjustedY d deltaY)
    \<and> isize (resizeItem c init d deltaX deltaY item) =
        min (100 - ix (resizeItem c init d deltaX deltaY item))
         (min (100 - iy (resizeItem c init d deltaX deltaY item))
           (snapToGridValue c (max (cellSize c)
              (isize init + max (adjustedX d deltaX) (adjustedY d deltaY)))))"
  using effectiveDelta_corner[OF assms, of deltaX deltaY]
    resizeItem_size[of c init d deltaX deltaY item] by simp

theorem corner_delta_is_maximum_witness:
  "SE \<in> {NE, NW, SE, SW}
   \<and> effectiveDelta SE (- 10) 1 = max (adjustedX SE (- 10)) (adjustedY SE 1)
   \<and> isize (resizeItem exampleCanvas exampleItem SE (- 10) 1 exampleItem) = 50 / 3"
  using corner_delta_is_maximum [of SE "- 10" 1 exampleCanvas exampleItem exampleItem]
  by (simp add: example_resize) (simp add: exampleItem_def newTile_def)

text \<open>
  C5: the item of \<open>exampleCanvas\<close> is at \<open>x = 0\<close> with size \<open>50/3\<close>, two cells of the 12
  columns, so its east edge is at \<open>50/3\<close>. The handle \<open>w\<close> is pressed at \<open>(0, 10)\<close> and
  the pointer moves to \<open>(50/3, 10)\<close>, which takes the size to 0. The frame has the size of
  one cell, \<open>25/3\<close>, and \<open>x = 50/3\<close>: the east edge is at 25. The code computes the new
  \<open>x\<close> from the size before it raises the size to one cell.
\<close>

theorem resize_w_moves_east_edge:
  "map (\<lambda>item. (ix item, isize item, ix item + isize item))
     (items (run (handleMouseMove (50 / 3, 10))
               (run (handleResizeStart (0, 10) ''nft-1'' W) exampleCanvas)))
    = [(50 / 3, 25 / 3, 25)]
   \<and> ix exampleItem + isize exampleItem = 50 / 3
   \<and> cellSize exampleCanvas = 25 / 3"
  by (simp add: run_def handleMouseMove_def handleResizeStart_def selectItem_def
      exampleCanvas_def exampleItem_def newTile_def initial_def truthy_def resizeItem_def
      dirIncludes_def snapToGridValue_def jsRound_def cellSize_def Let_def
      floor_rat_numeral_div)

section \<open>Bounds of the geometry\<close>

lemma resizeItem_nonneg:
  "0 \<le> ix (resizeItem c init d deltaX deltaY item)
   \<and> 0 \<le> iy (resizeItem c init d deltaX deltaY item)"
  by (cases d) (simp_all add: resizeItem_def Let_def dirIncludes_def snap_if)

text \<open>A resize frame is within the bounds, whatever the item was.\<close>

lemma resizeItem_inBounds: "inBounds (resizeItem c init d deltaX deltaY item)"
proof -
  let ?r = "resizeItem c init d deltaX deltaY item"
  obtain v where "isize ?r = min (100 - ix ?r) (min (100 - iy ?r) v)"
    using resizeItem_size by blast
  then have "isize ?r \<le> 100 - ix ?r" "isize ?r \<le> 100 - iy ?r" by simp_all
  then show ?thesis using resizeItem_nonneg[of c init d deltaX deltaY item]
    by (simp add: inBounds_def)
qed

text \<open>A drag frame is within the bounds when the item is not larger than the canvas.\<close>

lemma dragItem_inBounds:
  assumes "isize item \<le> 100"
  shows "inBounds (dragItem c init deltaX deltaY item)"
  using assms by (auto simp: inBounds_def dragItem_def Let_def)

lemma map_if_inBounds:
  assumes "\<forall>item \<in> set xs. inBounds item"
    and "\<And>item. item \<in> set xs \<Longrightarrow> inBounds (f item)"
  shows "\<forall>item \<in> set (map (\<lambda>item. if P item then f item else item) xs). inBounds item"
  using assms by auto

lemma handleMouseMove_inBounds:
  assumes "\<forall>item \<in> set (items s). inBounds item"
  shows "\<forall>item \<in> set (items (handleMouseMove p c s)). inBounds item"
proof -
  have small: "isize item \<le> 100" if "item \<in> set (items s)" for item
  proof -
    from assms that have "inBounds item" by blast
    then show ?thesis by (simp add: inBounds_def)
  qed
  have drag: "\<forall>item \<in> set (map (\<lambda>item. if Some (iid item) = activeItem c
                  then dragItem c init dx dy item else item) (items s)). inBounds item"
    for init dx dy
    by (rule map_if_inBounds[OF assms]) (simp add: dragItem_inBounds small)
  have resize: "\<forall>item \<in> set (map (\<lambda>item. if Some (iid item) = activeItem c
                  then resizeItem c init d dx dy item else item) (items s)). inBounds item"
    for init d dx dy
    by (rule map_if_inBounds[OF assms]) (simp add: resizeItem_inBounds)
  show ?thesis
  proof (cases "initialItemState c")
    case None
    then show ?thesis using assms by (simp add: handleMouseMove_def)
  next
    case (Some init)
    show ?thesis
    proof (cases "isDragging c")
      case True
      then show ?thesis using Some assms drag
        by (simp add: handleMouseMove_def Let_def del: set_map)
    next
      case False
      then show ?thesis using Some assms resize
        by (cases "isResizing c"; cases "resizeDirection c")
           (simp_all add: handleMouseMove_def Let_def del: set_map)
    qed
  qed
qed

lemma handleMouseUp_items: "items (handleMouseUp c s) = items s"
  by (simp add: handleMouseUp_def saveToHistory_items Let_def)

lemma draggedCanvas_eq:
  "draggedCanvas = exampleCanvas\<lparr>items := [exampleItem\<lparr>ix := 250 / 3, zIndex := 2\<rparr>],
      history := [[exampleItem], [exampleItem\<lparr>zIndex := 2\<rparr>]], historyIndex := 1\<rparr>"
  by (simp add: draggedCanvas_def run_def handleMouseDown_def handleMouseMove_def
      handleMouseUp_def selectItem_def dragItem_def saveToHistory_def exampleCanvas_def
      exampleItem_def newTile_def initial_def truthy_def snapToGridValue_def jsRound_def
      cellSize_def Let_def floor_rat_numeral_div)

text \<open>
  C1: the two nudges snap after they clamp, and \<open>resizeActiveItem\<close> raises the size to one
  cell after it has cut it at the edges, while the drag and resize frames clamp last. The
  first asset is added on 12 columns (size \<open>50/3\<close>) and dragged to the right edge
  (\<open>x = 250/3\<close>), within the bounds. With the selector set to 8 columns (cells of
  \<open>25/2\<close>) and snapping on, the arrow to the right clamps to \<open>250/3\<close> and snaps to
  \<open>175/2\<close>, so that \<open>x + size\<close> is \<open>625/6\<close>, more than 100. With the selector set to 4
  columns, the size button makes the size one cell of 25 at \<open>x = 250/3\<close>.
\<close>

theorem nudge_leaves_bounds:
  "map (\<lambda>item. (ix item, iy item, isize item, inBounds item)) (items draggedCanvas)
    = [(250 / 3, 0, 50 / 3, True)]
   \<and> map (\<lambda>item. (ix item, iy item, isize item, inBounds item))
     (items (run (moveActiveItem (25 / 2) 0) (draggedCanvas\<lparr>gridColumns := 8\<rparr>)))
    = [(175 / 2, 0, 50 / 3, False)]
   \<and> map (\<lambda>item. (ix item, iy item, isize item, inBounds item))
     (items (run (resizeActiveItem (- 25)) (draggedCanvas\<lparr>gridColumns := 4\<rparr>)))
    = [(250 / 3, 0, 25, False)]"
  by (simp add: draggedCanvas_eq run_def moveActiveItem_def resizeActiveItem_def
      exampleCanvas_def exampleItem_def newTile_def initial_def truthy_def snapToGridValue_def
      jsRound_def cellSize_def saveToHistory_items inBounds_def Let_def
      floor_rat_numeral_div floor_rat_one_div)

section \<open>Crop\<close>

text \<open>
  C4, as stated, fails: the width is the minimum of the requested width and \<open>100 - cropX\<close>,
  raised to 10 afterwards, so for \<open>cropX\<close> above 90 the stored sum exceeds 100. With
  \<open>cropX = 95\<close> and \<open>cropWidth = 50\<close> the stored crop has \<open>x = 95\<close> and width 10.
\<close>

theorem updateCrop_sum_counterexample:
  "map (\<lambda>item. (cropX item, cropWidth item, cropX item + cropWidth item \<le> 100))
     (items (run (updateCrop 95 0 50 100) exampleCanvas)) = [(95, 10, False)]"
  by (simp add: run_def updateCrop_def exampleCanvas_def exampleItem_def newTile_def
      initial_def truthy_def saveToHistory_def Let_def)

text \<open>
  C4, amended: for every input, the crop that \<open>updateCrop\<close> stores in the active item has
  \<open>x\<close> and \<open>y\<close> in \<open>[0, 100]\<close> and width and height of at least 10; when the requested
  \<open>cropX\<close> is in \<open>[0, 90]\<close> then \<open>x + width \<le> 100\<close>, and when the requested \<open>cropY\<close> is in
  \<open>[0, 90]\<close> then \<open>y + height \<le> 100\<close>; a call with \<open>x = 90\<close> and width 50 stores
  width 10. The item at position \<open>k\<close> is the active one; \<open>c\<close> is the closure of the handler.
\<close>

theorem updateCrop_clamps:
  assumes "truthy (activeItem c)" "k < length (items s)"
    and "Some (iid (items s ! k)) = activeItem c"
  shows "let item = items (updateCrop cx cy cw ch c s) ! k in
           0 \<le> cropX item \<and> cropX item \<le> 100 \<and> 0 \<le> cropY item \<and> cropY item \<le> 100
         \<and> 10 \<le> cropWidth item \<and> 10 \<le> cropHeight item
         \<and> (0 \<le> cx \<and> cx \<le> 90 \<longrightarrow> cropX item + cropWidth item \<le> 100)
         \<and> (0 \<le> cy \<and> cy \<le> 90 \<longrightarrow> cropY item + cropHeight item \<le> 100)
         \<and> (cx = 90 \<and> cw = 50 \<longrightarrow> cropWidth item = 10)"
  using assms
  by (auto simp: updateCrop_def saveToHistory_items Let_def)

theorem updateCrop_clamps_witness:
  "truthy (activeItem exampleCanvas) \<and> 0 < length (items exampleCanvas)
   \<and> Some (iid (items exampleCanvas ! 0)) = activeItem exampleCanvas
   \<and> (0::rat) \<le> 90 \<and> (90::rat) \<le> 90 \<and> (0::rat) \<le> 0 \<and> (0::rat) \<le> 90
   \<and> map (\<lambda>item. (cropX item, cropY item, cropWidth item, cropHeight item))
        (items (updateCrop 90 0 50 100 exampleCanvas exampleCanvas)) = [(90, 0, 10, 100)]"
  using updateCrop_clamps [of exampleCanvas 0 exampleCanvas 90 0 50 100]
  by (simp add: updateCrop_def exampleCanvas_def exampleItem_def newTile_def initial_def
      truthy_def saveToHistory_def Let_def)

section \<open>Undo and redo after a nudge\<close>

text \<open>
  C2: \<open>moveActiveItem\<close> hands the moved list to \<open>setItems\<close> and the list of its closure,
  from before the move, to \<open>saveToHistory\<close>; \<open>resizeActiveItem\<close>, \<open>updateCrop\<close> and
  \<open>handleMouseUp\<close> do the same, while \<open>addNFT\<close>, \<open>removeItem\<close>, \<open>clearCanvas\<close> and
  \<open>addMultipleNFTs\<close> store the new list. On the canvas with the first asset (the item at
  \<open>x = 0\<close>, 12 columns, snapping on) the arrow to the right moves the item to \<open>x = 25/3\<close>
  and appends the list with \<open>x = 0\<close>. Undo shows \<open>x = 0\<close>, and redo after that undo shows
  \<open>x = 0\<close> again, not the list the nudge produced. A second press moves the item to
  \<open>x = 50/3\<close>, and undo right after it shows \<open>x = 0\<close>, not the list with \<open>x = 25/3\<close> from
  before that press.
\<close>

theorem nudge_history_is_stale:
  "run (moveActiveItem (25 / 3) 0) exampleCanvas
     = exampleCanvas\<lparr>items := [exampleItem\<lparr>ix := 25 / 3\<rparr>],
         history := [[exampleItem], [exampleItem]], historyIndex := 1\<rparr>
   \<and> run undo (exampleCanvas\<lparr>items := [exampleItem\<lparr>ix := 25 / 3\<rparr>],
         history := [[exampleItem], [exampleItem]], historyIndex := 1\<rparr>)
     = Inr (exampleCanvas\<lparr>items := [exampleItem],
         history := [[exampleItem], [exampleItem]], historyIndex := 0\<rparr>)
   \<and> run redo (exampleCanvas\<lparr>items := [exampleItem],
         history := [[exampleItem], [exampleItem]], historyIndex := 0\<rparr>)
     = Inr (exampleCanvas\<lparr>items := [exampleItem],
         history := [[exampleItem], [exampleItem]], historyIndex := 1\<rparr>)
   \<and> run (moveActiveItem (25 / 3) 0)
       (exampleCanvas\<lparr>items := [exampleItem\<lparr>ix := 25 / 3\<rparr>],
         history := [[exampleItem], [exampleItem]], historyIndex := 1\<rparr>)
     = exampleCanvas\<lparr>items := [exampleItem\<lparr>ix := 50 / 3\<rparr>],
         history := [[exampleItem], [exampleItem], [exampleItem\<lparr>ix := 25 / 3\<rparr>]],
         historyIndex := 2\<rparr>
   \<and> run undo (exampleCanvas\<lparr>items := [exampleItem\<lparr>ix := 50 / 3\<rparr>],
         history := [[exampleItem], [exampleItem], [exampleItem\<lparr>ix := 25 / 3\<rparr>]],
         historyIndex := 2\<rparr>)
     = Inr (exampleCanvas\<lparr>items := [exampleItem],
         history := [[exampleItem], [exampleItem], [exampleItem\<lparr>ix := 25 / 3\<rparr>]],
         historyIndex := 1\<rparr>)"
  by (simp add: run_def moveActiveItem_def undo_def redo_def exampleCanvas_def exampleItem_def
      newTile_def initial_def truthy_def snapToGridValue_def jsRound_def cellSize_def
      saveToHistory_def Let_def floor_rat_numeral_div floor_rat_one_div)

section \<open>Bulk placement\<close>

lemma tryPlaceNFT_ids:
  assumes "idsFrom ids (snd st)"
  shows "idsFrom ids (snd (snd (tryPlaceNFT cs gridSize ids n index maxSize st)))"
  using assms
  by (cases st) (auto simp: tryPlaceNFT_def idsFrom_def newTile_def split: option.splits)

lemma placeAll_ids:
  assumes "idsFrom ids (snd st)"
  shows "idsFrom ids (snd (placeAll cs gridSize ids shuffledNFTs st))"
  unfolding placeAll_def
proof (rule fold_invariant[where Q = "\<lambda>_. True" and P = "\<lambda>st. idsFrom ids (snd st)"])
  show "idsFrom ids (snd st)" by (rule assms)
next
  fix x :: "NFT \<times> nat" and st' :: "cell list \<times> CanvasItem list"
  assume "idsFrom ids (snd st')"
  then show "idsFrom ids (snd ((case x of (n, index) \<Rightarrow> \<lambda>st.
               let maxSize = if nft_is_collection_image n then 3 else 3
               in snd (tryPlaceNFT cs gridSize ids n index maxSize st)) st'))"
    by (cases x) (simp add: tryPlaceNFT_ids Let_def)
qed simp

lemma fillLoop_ids:
  assumes "idsFrom ids newItems"
  shows "idsFrom ids (fillLoop cs ids shuffledNFTs minCount fillerIndex availableCells newItems)"
  using assms
proof (induction availableCells arbitrary: fillerIndex newItems)
  case Nil
  then show ?case by simp
next
  case (Cons cell rest)
  have "idsFrom ids (newItems @ [newTile (ids (length newItems)) n px py psize z])"
    for n px py psize z
    using Cons.prems by (simp add: idsFrom_def newTile_def)
  then show ?case using Cons by simp
qed

lemma packMultiple_ids: "idsFrom ids (packMultiple cs ids shuffledNFTs minCount)"
proof -
  let ?g = "nat \<lfloor>100 / cs\<rfloor>"
  obtain av its where p: "placeAll cs ?g ids shuffledNFTs (allCells ?g, []) = (av, its)"
    by fastforce
  have "idsFrom ids (snd (placeAll cs ?g ids shuffledNFTs (allCells ?g, [])))"
    by (rule placeAll_ids) (simp add: idsFrom_def)
  then have "idsFrom ids its" using p by simp
  then show ?thesis
    unfolding packMultiple_def Let_def p by (simp add: fillLoop_ids)
qed

lemma pack_one:
  "packMultiple (25 / 3) (\<lambda>k. ''new'') [exampleNFT] 1 = [newTile ''new'' exampleNFT 0 0 25 1]"
  by code_simp

text \<open>
  C10: for a non-empty input, the item list after \<open>addMultipleNFTs\<close> is the list of the
  new placements, which is computed from the columns, the input and \<open>minCount\<close> alone and
  not from the items of the canvas or of the closure; the selection is cleared; and when
  the generated identifiers are new, no item from before the call is in the list.
\<close>

theorem bulk_add_replaces_canvas:
  assumes "nftsToAdd \<noteq> []"
  shows "items (addMultipleNFTs nftsToAdd minCount shuffledNFTs ids c s)
           = packMultiple (cellSize c) ids shuffledNFTs minCount
     \<and> activeItem (addMultipleNFTs nftsToAdd minCount shuffledNFTs ids c s) = None
     \<and> ((\<forall>k. ids k \<notin> iid ` set (items s)) \<longrightarrow>
          (\<forall>item \<in> set (items (addMultipleNFTs nftsToAdd minCount shuffledNFTs ids c s)).
               item \<notin> set (items s)))"
proof -
  let ?s' = "addMultipleNFTs nftsToAdd minCount shuffledNFTs ids c s"
  have it: "items ?s' = packMultiple (cellSize c) ids shuffledNFTs minCount"
    and act: "activeItem ?s' = None"
    using assms
    by (simp_all add: addMultipleNFTs_def saveToHistory_items saveToHistory_activeItem Let_def)
  have "item \<notin> set (items s)"
    if fresh: "\<forall>k. ids k \<notin> iid ` set (items s)" and m: "item \<in> set (items ?s')" for item
  proof
    assume old: "item \<in> set (items s)"
    from m it packMultiple_ids[of ids "cellSize c" shuffledNFTs minCount]
    obtain k where "iid item = ids k" by (auto simp: idsFrom_def)
    with old fresh show False by (metis imageI)
  qed
  with it act show ?thesis by blast
qed

theorem bulk_add_replaces_canvas_witness:
  "[exampleNFT] \<noteq> []
   \<and> items (addMultipleNFTs [exampleNFT] 1 [exampleNFT] (\<lambda>k. ''new'') exampleCanvas exampleCanvas)
       = [newTile ''new'' exampleNFT 0 0 25 1]
   \<and> activeItem (addMultipleNFTs [exampleNFT] 1 [exampleNFT] (\<lambda>k. ''new'') exampleCanvas
        exampleCanvas) = None
   \<and> items exampleCanvas = [exampleItem]
   \<and> exampleItem \<notin> set (items (addMultipleNFTs [exampleNFT] 1 [exampleNFT] (\<lambda>k. ''new'')
        exampleCanvas exampleCanvas))"
  using bulk_add_replaces_canvas [of "[exampleNFT]" 1 "[exampleNFT]" "\<lambda>k. ''new''"
      exampleCanvas exampleCanvas]
  by (simp add: pack_one cellSize_def exampleCanvas_def initial_def exampleItem_def newTile_def)

section \<open>Five assets, eight tiles\<close>

text \<open>
  The five passes of \<open>tryPlaceNFT\<close> on 12 columns, each on the cells that the passes
  before it have left, and the first three cells that are left for the fillers.
\<close>

lemma place_1: "findPlace 12 (allCells 12) 3 = Some ((0, 0), 3)"
  by code_simp

lemma place_2: "findPlace 12 (markOccupied (0, 0) 3 (allCells 12)) 3 = Some ((0, 3), 3)"
  by code_simp

lemma place_3:
  "findPlace 12 (markOccupied (0, 3) 3 (markOccupied (0, 0) 3 (allCells 12))) 3
     = Some ((0, 6), 3)"
  by code_simp

lemma place_4:
  "findPlace 12 (markOccupied (0, 6) 3 (markOccupied (0, 3) 3
     (markOccupied (0, 0) 3 (allCells 12)))) 3 = Some ((0, 9), 3)"
  by code_simp

lemma place_5:
  "findPlace 12 (markOccupied (0, 9) 3 (markOccupied (0, 6) 3 (markOccupied (0, 3) 3
     (markOccupied (0, 0) 3 (allCells 12))))) 3 = Some ((3, 0), 3)"
  by code_simp

lemma cells_left:
  "take 3 (markOccupied (3, 0) 3 (markOccupied (0, 9) 3 (markOccupied (0, 6) 3
     (markOccupied (0, 3) 3 (markOccupied (0, 0) 3 (allCells 12))))))
     = [(3, 3), (3, 4), (3, 5)]"
  by code_simp

lemma placeAll_five:
  "placeAll (25 / 3) 12 ids [a, b, c, d, e] (allCells 12, []) =
    (markOccupied (3, 0) 3 (markOccupied (0, 9) 3 (markOccupied (0, 6) 3
       (markOccupied (0, 3) 3 (markOccupied (0, 0) 3 (allCells 12))))),
     [newTile (ids 0) a 0 0 25 1, newTile (ids 1) b 25 0 25 2, newTile (ids 2) c 50 0 25 3,
      newTile (ids 3) d 75 0 25 4, newTile (ids 4) e 0 25 25 5])"
  by (simp add: placeAll_def tryPlaceNFT_def place_1 place_2 place_3 place_4 place_5 upt_rec)
     (simp add: eval_nat_numeral)

lemma fillLoop_three:
  assumes "take 3 av = [c1, c2, c3]" "length its = 5"
  shows "fillLoop cs ids sh 8 0 av its =
     its @ [newTile (ids 5) (sh ! (0 mod length sh))
              (of_nat (snd c1) * cs) (of_nat (fst c1) * cs) cs 6,
            newTile (ids 6) (sh ! (1 mod length sh))
              (of_nat (snd c2) * cs) (of_nat (fst c2) * cs) cs 7,
            newTile (ids 7) (sh ! (2 mod length sh))
              (of_nat (snd c3) * cs) (of_nat (fst c3) * cs) cs 8]"
proof -
  from assms(1) obtain rest where av: "av = c1 # c2 # c3 # rest"
    by (cases av; cases "tl av"; cases "tl (tl av)") auto
  show ?thesis
    unfolding av using assms(2) by (cases rest) (simp_all add: eval_nat_numeral)
qed

lemma packMultiple_five:
  "packMultiple (25 / 3) ids [a, b, c, d, e] 8 =
     [newTile (ids 0) a 0 0 25 1, newTile (ids 1) b 25 0 25 2, newTile (ids 2) c 50 0 25 3,
      newTile (ids 3) d 75 0 25 4, newTile (ids 4) e 0 25 25 5,
      newTile (ids 5) a 25 25 (25 / 3) 6, newTile (ids 6) b (100 / 3) 25 (25 / 3) 7,
      newTile (ids 7) c (125 / 3) 25 (25 / 3) 8]"
proof -
  have g: "nat \<lfloor>100 / (25 / 3 :: rat)\<rfloor> = 12" by simp
  show ?thesis
    unfolding packMultiple_def Let_def g placeAll_five
    by (simp add: fillLoop_three[OF cells_left])
qed

text \<open>The cells that the eight squares cover are the blocks that the code reserved.\<close>

lemma covered_blocks:
  "map (\<lambda>(px, py, psize). cellsCovered (25 / 3) 12 px py psize)
     [(0, 0, 25), (25, 0, 25), (50, 0, 25), (75, 0, 25), (0, 25, 25),
      (25, 25, 25 / 3), (100 / 3, 25, 25 / 3), (125 / 3, 25, 25 / 3)]
   = [blockCells (0, 0) 3, blockCells (0, 3) 3, blockCells (0, 6) 3, blockCells (0, 9) 3,
      blockCells (3, 0) 3, blockCells (3, 3) 1, blockCells (3, 4) 1, blockCells (3, 5) 1]"
  by code_simp

lemma blocks_disjoint:
  "\<forall>i \<in> set [0..<8]. \<forall>j \<in> set [0..<8]. i \<noteq> j \<longrightarrow>
     set ([blockCells (0, 0) 3, blockCells (0, 3) 3, blockCells (0, 6) 3, blockCells (0, 9) 3,
      blockCells (3, 0) 3, blockCells (3, 3) 1, blockCells (3, 4) 1, blockCells (3, 5) 1] ! i)
     \<inter> set ([blockCells (0, 0) 3, blockCells (0, 3) 3, blockCells (0, 6) 3,
      blockCells (0, 9) 3, blockCells (3, 0) 3, blockCells (3, 3) 1, blockCells (3, 4) 1,
      blockCells (3, 5) 1] ! j) = {}"
  by code_simp

text \<open>
  The cells that \<open>findEmptyPosition\<close> counts as occupied by an item run to the floor of
  the far edge, that edge included, so two tiles side by side share the column of cells
  between them: column 3 of row 0 is counted for the first and for the second tile.
\<close>

lemma occupied_cells_shared:
  "(3, 0) \<in> set (occupiedBy (25 / 3) (newTile ''t1'' exampleNFT 0 0 25 1))
   \<and> (3, 0) \<in> set (occupiedBy (25 / 3) (newTile ''t2'' exampleNFT 25 0 25 2))"
  by code_simp

text \<open>
  C3: on a canvas with 12 columns, \<open>addMultipleNFTs\<close> with five assets and
  \<open>minCount = 8\<close> leaves eight items, whatever the order the shuffle produced and whatever
  the canvas held; the cells that the eight squares cover are five blocks of 3 by 3 cells
  and three single cells, and no two of the eight footprints share a cell.
\<close>

theorem bulk_five_assets_eight_tiles:
  assumes "length nftsToAdd = 5" "mset shuffledNFTs = mset nftsToAdd" "gridColumns s = 12"
  shows "let placed = items (run (addMultipleNFTs nftsToAdd 8 shuffledNFTs ids) s) in
           length placed = 8
         \<and> map (footprint (cellSize s) (gridColumns s)) placed
             = [blockCells (0, 0) 3, blockCells (0, 3) 3, blockCells (0, 6) 3,
                blockCells (0, 9) 3, blockCells (3, 0) 3, blockCells (3, 3) 1,
                blockCells (3, 4) 1, blockCells (3, 5) 1]
         \<and> (\<forall>i<8. \<forall>j<8. i \<noteq> j \<longrightarrow>
               set (footprint (cellSize s) (gridColumns s) (placed ! i))
               \<inter> set (footprint (cellSize s) (gridColumns s) (placed ! j)) = {})"
proof -
  let ?placed = "items (run (addMultipleNFTs nftsToAdd 8 shuffledNFTs ids) s)"
  let ?blocks = "[blockCells (0, 0) 3, blockCells (0, 3) 3, blockCells (0, 6) 3,
                blockCells (0, 9) 3, blockCells (3, 0) 3, blockCells (3, 3) 1,
                blockCells (3, 4) 1, blockCells (3, 5) 1]"
  have "length shuffledNFTs = 5" using assms(1,2) mset_eq_length by fastforce
  then obtain a b c d e where sh: "shuffledNFTs = [a, b, c, d, e]"
    by (auto simp: eval_nat_numeral length_Suc_conv)
  have ne: "nftsToAdd \<noteq> []" using assms(1) by auto
  have cs: "cellSize s = 25 / 3" using assms(3) by (simp add: cellSize_def)
  have placed: "?placed = packMultiple (25 / 3) ids [a, b, c, d, e] 8"
    using ne by (simp add: run_def addMultipleNFTs_def saveToHistory_items cs sh Let_def)
  have len: "length ?placed = 8" unfolding placed packMultiple_five by simp
  have fps: "map (footprint (cellSize s) (gridColumns s)) ?placed = ?blocks"
    unfolding placed packMultiple_five cs assms(3) using covered_blocks
    by (simp add: footprint_def newTile_def)
  have nth: "footprint (cellSize s) (gridColumns s) (?placed ! i) = ?blocks ! i"
    if "i < 8" for i
    using that len by (subst fps[symmetric]) (simp del: nth_map add: nth_map)
  have dis: "set (?blocks ! i) \<inter> set (?blocks ! j) = {}"
    if "i < 8" "j < 8" "i \<noteq> j" for i j
    using blocks_disjoint that by (simp del: nth_Cons_numeral)
  show ?thesis unfolding Let_def using len fps nth dis by simp
qed

theorem bulk_five_assets_eight_tiles_witness:
  "length [exampleNFT, assetA, assetB, exampleNFT, assetA] = 5
   \<and> mset [assetA, exampleNFT, assetA, assetB, exampleNFT]
       = mset [exampleNFT, assetA, assetB, exampleNFT, assetA]
   \<and> gridColumns initial = 12
   \<and> length (items (run (addMultipleNFTs [exampleNFT, assetA, assetB, exampleNFT, assetA] 8
        [assetA, exampleNFT, assetA, assetB, exampleNFT] (\<lambda>k. ''new'')) initial)) = 8"
  using bulk_five_assets_eight_tiles [of "[exampleNFT, assetA, assetB, exampleNFT, assetA]"
      "[assetA, exampleNFT, assetA, assetB, exampleNFT]" initial "\<lambda>k. ''new''"]
  by (simp add: initial_def Let_def)

section \<open>Reconciliation\<close>

lemma addNFT_items:
  "\<exists>item. items (addNFT n uid rx ry c s) = items c @ [item] \<and> inft item = n \<and> iid item = uid"
  by (simp add: addNFT_def saveToHistory_items Let_def split: prod.splits)

text \<open>
  Every call of \<open>addNFT\<close> in the effect appends to the item list of the closure, so the
  list after the effect is that list and the item of the last call.
\<close>

lemma fold_addNFT_items:
  assumes "ps \<noteq> []"
  shows "\<exists>item. items (fold (\<lambda>(n, k). addNFT n (ids k) (rxs k) (rys k) c) ps s)
                   = items c @ [item]
           \<and> inft item = fst (last ps)"
proof -
  obtain qs n k where ps: "ps = qs @ [(n, k)]"
    using assms by (metis rev_exhaust surj_pair)
  show ?thesis
    unfolding ps using addNFT_items[of n "ids k" "rxs k" "rys k" c] by auto
qed

lemma reconcile_items:
  "(selectedNFTs = [] \<or> newNFTs c selectedNFTs = [] \<longrightarrow>
      items (reconcile selectedNFTs ids rxs rys c s) = items s)
   \<and> (selectedNFTs \<noteq> [] \<and> newNFTs c selectedNFTs \<noteq> [] \<longrightarrow>
      (\<exists>item. items (reconcile selectedNFTs ids rxs rys c s) = items c @ [item]
         \<and> inft item = last (newNFTs c selectedNFTs)
         \<and> nftKey (inft item) \<notin> existingNFTs (items c)))"
proof (cases "selectedNFTs = [] \<or> newNFTs c selectedNFTs = []")
  case True
  then show ?thesis by (auto simp: reconcile_def Let_def)
next
  case False
  let ?new = "newNFTs c selectedNFTs"
  let ?ps = "zip ?new [0..<length ?new]"
  have ne: "?ps \<noteq> []" using False by (cases ?new) (simp_all add: upt_rec)
  have l: "fst (last ?ps) = last ?new"
    using False by (subst last_zip) auto
  have "last ?new \<in> set ?new" using False by simp
  then have k: "nftKey (last ?new) \<notin> existingNFTs (items c)"
    by (simp add: newNFTs_def)
  show ?thesis
    using fold_addNFT_items[OF ne, of ids rxs rys c s] False l k
    by (auto simp: reconcile_def Let_def)
qed

lemma first_add:
  "run (addNFT n uid rx ry) initial
     = initial\<lparr>items := [newTile uid n 0 0 (50 / 3) 1], activeItem := Some uid,
         history := [[newTile uid n 0 0 (50 / 3) 1]], historyIndex := 0\<rparr>"
proof -
  have "findEmptyPosition initial rx ry = (0, 0, 2 * cellSize initial)"
    by (rule findEmptyPosition_no_items) (simp_all add: initial_def)
  then show ?thesis
    by (simp add: run_def addNFT_def cellSize_def saveToHistory_def initial_def
        newTile_def Let_def)
qed

lemma first_selection:
  "handleSelectNFT assetA (\<lambda>k. ''nft-1'') rxs rys initialApp
     = \<lparr> appSelectedNFTs = [assetA],
         gridCanvas = initial\<lparr>items := [newTile ''nft-1'' assetA 0 0 (50 / 3) 1],
           activeItem := Some ''nft-1'',
           history := [[newTile ''nft-1'' assetA 0 0 (50 / 3) 1]], historyIndex := 0\<rparr> \<rparr>"
proof -
  have n: "newNFTs initial [assetA] = [assetA]"
    by (simp add: newNFTs_def existingNFTs_def initial_def)
  have "run (reconcile [assetA] (\<lambda>k. ''nft-1'') rxs rys) initial
          = run (addNFT assetA ''nft-1'' (rxs 0) (rys 0)) initial"
    by (simp add: run_def reconcile_def n Let_def)
  then show ?thesis
    by (simp add: handleSelectNFT_def isAlreadySelected_def initialApp_def first_add Let_def)
qed

lemma restoredApp_reached:
  "undoButton (clearButton (handleSelectNFT assetA (\<lambda>k. ''nft-1'') rxs rys initialApp))
     = Inr restoredApp"
  by (simp add: first_selection clearButton_def undoButton_def run_def clearCanvas_def
      undo_def saveToHistory_def initial_def restoredApp_def Let_def)

lemma exampleCanvas_items: "items exampleCanvas = [exampleItem]"
  by (simp add: exampleCanvas_def)

lemma inft_exampleItem: "inft exampleItem = exampleNFT"
  by (simp add: exampleItem_def newTile_def)

text \<open>
  C9, as stated, fails: the key that the effect computes has no tier for the opaque id. It
  is the contract with the identifier, else the contract address with the token id, else
  the image URL, else the word \<open>unknown\<close>. \<open>assetA\<close> and \<open>assetB\<close> have no contract, the
  same id and different image URLs, so their identity key in the wording of the
  specification is that id. \<open>assetA\<close> is selected, the canvas is cleared (which empties the
  list of the parent) and the clear is undone, so that the item of \<open>assetA\<close> is on the canvas
  again; then \<open>assetB\<close> is selected. Its key matches the item on the canvas, and the event
  adds a second item.
\<close>

theorem same_opaque_id_added_twice_counterexample:
  "undoButton (clearButton
       (handleSelectNFT assetA (\<lambda>k. ''nft-1'') (\<lambda>k. 0) (\<lambda>k. 0) initialApp))
     = Inr restoredApp
   \<and> map inft (items (gridCanvas restoredApp)) = [assetA]
   \<and> specIdentityKey assetB = specIdentityKey assetA
   \<and> map inft (items (gridCanvas
        (handleSelectNFT assetB (\<lambda>k. ''nft-2'') (\<lambda>k. 0) (\<lambda>k. 0) restoredApp)))
       = [assetA, assetB]"
proof -
  let ?c = "gridCanvas restoredApp"
  have its: "items ?c = [newTile ''nft-1'' assetA 0 0 (50 / 3) 1]"
    by (simp add: restoredApp_def)
  have new: "newNFTs ?c [assetB] = [assetB]"
    by (simp add: newNFTs_def existingNFTs_def its newTile_def nftKey_def assetA_def
        assetB_def truthy_def str_def)
  obtain item where
    "items (reconcile [assetB] (\<lambda>k. ''nft-2'') (\<lambda>k. 0) (\<lambda>k. 0) ?c ?c) = items ?c @ [item]"
    "inft item = assetB"
    using reconcile_items[of "[assetB]" ?c "\<lambda>k. ''nft-2''" "\<lambda>k. 0" "\<lambda>k. 0" ?c] new by auto
  then have "map inft (items (run (reconcile [assetB] (\<lambda>k. ''nft-2'') (\<lambda>k. 0) (\<lambda>k. 0)) ?c))
               = [assetA, assetB]"
    by (simp add: run_def its newTile_def)
  moreover have "\<not> isAlreadySelected (appSelectedNFTs restoredApp) assetB"
    by (simp add: isAlreadySelected_def restoredApp_def)
  ultimately have last: "map inft (items (gridCanvas
        (handleSelectNFT assetB (\<lambda>k. ''nft-2'') (\<lambda>k. 0) (\<lambda>k. 0) restoredApp)))
       = [assetA, assetB]"
    by (simp add: handleSelectNFT_def Let_def restoredApp_def)
  have key: "specIdentityKey assetB = specIdentityKey assetA"
    by (simp add: specIdentityKey_def assetA_def assetB_def truthy_def)
  show ?thesis using restoredApp_reached last key its by (simp add: newTile_def)
qed

text \<open>
  C9, amended: with the key that the effect computes (\<open>nftKey\<close>: the contract with the
  identifier, else the contract address with the token id, else the image URL, else
  \<open>unknown\<close>), an event whose asset has a key that already matches an item on the canvas
  adds no item with that key, whatever list the event pushes: the items with that key are
  the same before and after. And when no two items of the canvas share a key before the
  event, no two share one after it.
\<close>

theorem reconcile_adds_no_duplicate:
  assumes "nftKey n \<in> existingNFTs (items s)"
  shows "filter (\<lambda>item. nftKey (inft item) = nftKey n)
            (items (run (reconcile selectedNFTs ids rxs rys) s))
           = filter (\<lambda>item. nftKey (inft item) = nftKey n) (items s)
     \<and> (distinct (map (\<lambda>item. nftKey (inft item)) (items s)) \<longrightarrow>
          distinct (map (\<lambda>item. nftKey (inft item))
             (items (run (reconcile selectedNFTs ids rxs rys) s))))"
  using reconcile_items[of selectedNFTs s ids rxs rys s] assms
  by (auto simp: run_def existingNFTs_def)

theorem reconcile_adds_no_duplicate_witness:
  "nftKey exampleNFT \<in> existingNFTs (items exampleCanvas)
   \<and> filter (\<lambda>item. nftKey (inft item) = nftKey exampleNFT)
        (items (run (reconcile [exampleNFT, assetB] (\<lambda>k. ''nft-2'') (\<lambda>k. 0) (\<lambda>k. 0))
           exampleCanvas))
       = [exampleItem]
   \<and> distinct (map (\<lambda>item. nftKey (inft item))
        (items (run (reconcile [exampleNFT, assetB] (\<lambda>k. ''nft-2'') (\<lambda>k. 0) (\<lambda>k. 0))
           exampleCanvas)))"
  using reconcile_adds_no_duplicate [of exampleNFT exampleCanvas "[exampleNFT, assetB]"
      "\<lambda>k. ''nft-2''" "\<lambda>k. 0" "\<lambda>k. 0"]
  by (simp add: existingNFTs_def exampleCanvas_items inft_exampleItem)

end
